theory Spec2Isabelle
  imports Main "HOL-Library.AList"
begin

section \<open>Endpoints of the pyrce client (pyrce/interface.py)\<close>

text \<open>
  The module turns one tagged, asynchronous connection into publishers, subscribers and
  services. Every method is embedded as a function that takes the receiving object and
  the state of everything around it, and returns the outcome (an exception as
  \<open>Inl\<close>, a returned value as \<open>Inr\<close>) together with the object and the
  surroundings as the method leaves them. A Python exception does not undo the
  assignments made before it, so the state is returned on both branches.
\<close>

subsection \<open>Values\<close>

type_synonym tag = string
type_synonym msgtype = string
type_synonym uid = string

text \<open>
  A callback argument is an arbitrary Python value. The code observes two things of it:
  its truth value (\<^verbatim>\<open>if not cb\<close>) and whether it is callable
  (\<^verbatim>\<open>callable(cb)\<close>). \<^verbatim>\<open>None\<close> is false and not callable; any
  other object carries its identity and the two observations.
\<close>

datatype pyval = PyNone | PyObj nat bool bool

fun truthy :: "pyval \<Rightarrow> bool" where
  "truthy PyNone = False"
| "truthy (PyObj i t c) = t"

fun callable :: "pyval \<Rightarrow> bool" where
  "callable PyNone = False"
| "callable (PyObj i t c) = c"

text \<open>The exceptions raised in the module, each with its message or the missing attribute.\<close>

datatype error = TypeError string | AttributeError string | Exception string

text \<open>
  What a \<^verbatim>\<open>Deferred\<close> of the module carries: the one callback added to it
  right after its creation, either the caller's callback (\<^verbatim>\<open>Service.call\<close>)
  or the bound method \<^verbatim>\<open>self._callback\<close> with the extra arguments
  \<^verbatim>\<open>uid, event\<close> (\<^verbatim>\<open>ROSService._rosCB\<close>).
\<close>

datatype handler = UserCb pyval | RosCallback uid nat

datatype deferred = Deferred handler

text \<open>
  The objects found in \<^verbatim>\<open>ROSService._pending\<close>: a
  \<^verbatim>\<open>rospy.AnyMsg\<close> with its buffer, or a \<^verbatim>\<open>threading.Event\<close>
  (by its index in the table of events). Only an event has a method
  \<^verbatim>\<open>set\<close>; only a message is an instance of
  \<^verbatim>\<open>genpy.message.Message\<close>.
\<close>

datatype 'm pyobj = AnyMsg 'm | EventObj nat

fun isinstance_Message :: "'m pyobj \<Rightarrow> bool" where
  "isinstance_Message (AnyMsg b) = True"
| "isinstance_Message (EventObj e) = False"

subsection \<open>The surroundings of an endpoint\<close>

text \<open>
  \<^item> \<open>sent\<close>: the calls of \<^verbatim>\<open>Connection.sendMessage\<close>, in order, each
    with its four arguments;
  \<^item> \<open>registry\<close>: the interfaces registered with the connection, by tag and object
    identity;
  \<^item> \<open>invoked\<close>: the invocations of user callbacks, in order, each with the
    callback and its argument;
  \<^item> \<open>events\<close>: the flag of every \<^verbatim>\<open>threading.Event\<close> created so far.
\<close>

record 'm world =
  sent :: "(tag \<times> msgtype \<times> 'm \<times> uid) list"
  registry :: "(tag \<times> nat) list"
  invoked :: "(pyval \<times> 'm) list"
  events :: "bool list"

text \<open>
  Modelled from the spec: \<^verbatim>\<open>Connection.sendMessage\<close> is not part of the
  module; the spec gives it as
  \<^verbatim>\<open>sendMessage(tag, messageType, payload, correlationId)\<close>, one outbound
  message on the shared channel.
\<close>

definition sendMessage :: "tag \<Rightarrow> msgtype \<Rightarrow> 'm \<Rightarrow> uid \<Rightarrow> 'm world \<Rightarrow> 'm world" where
  "sendMessage iTag msgType msg msgID w = w\<lparr>sent := sent w @ [(iTag, msgType, msg, msgID)]\<rparr>"

text \<open>
  Modelled from the spec: \<^verbatim>\<open>Connection.unregisterInterface\<close> is not part
  of the module; the spec gives the registry as keyed by tag and says that unsubscribing
  removes the endpoint from it and that removing an endpoint which is already gone must
  not fault.
\<close>

definition unregisterInterface :: "tag \<Rightarrow> nat \<Rightarrow> 'm world \<Rightarrow> (error + unit) \<times> 'm world" where
  "unregisterInterface iTag iface w =
     (Inr (), w\<lparr>registry := removeAll (iTag, iface) (registry w)\<rparr>)"

text \<open>
  Calling a Python value with one argument. A value that is not callable raises
  \<^verbatim>\<open>TypeError\<close> and nothing is invoked. A callable is invoked; it is user
  code, and what the module sees of it is whether it returns or raises: \<open>raised\<close> is
  the exception it raises in this invocation (\<open>None\<close> when it returns), and that
  exception leaves the call.
\<close>

definition py_call :: "pyval \<Rightarrow> 'm \<Rightarrow> error option \<Rightarrow> 'm world \<Rightarrow> (error + unit) \<times> 'm world" where
  "py_call f arg raised w =
     (if callable f
      then ((case raised of None \<Rightarrow> Inr () | Some e \<Rightarrow> Inl e),
            w\<lparr>invoked := invoked w @ [(f, arg)]\<rparr>)
      else (Inl (TypeError ''object is not callable''), w))"

subsection \<open>Publisher\<close>

record publisher =
  pub_iTag :: tag
  pub_msgType :: msgtype

text \<open>\<^verbatim>\<open>_Publisher.__init__\<close>; the connection is the surrounding world.\<close>

definition Publisher_init :: "tag \<Rightarrow> msgtype \<Rightarrow> publisher" where
  "Publisher_init iTag msgType = \<lparr>pub_iTag = iTag, pub_msgType = msgType\<rparr>"

text \<open>\<^verbatim>\<open>_Publisher.publish\<close>: one send with the literal \<^verbatim>\<open>'nil'\<close> as id.\<close>

definition publish :: "publisher \<Rightarrow> 'm \<Rightarrow> 'm world \<Rightarrow> (error + unit) \<times> publisher \<times> 'm world" where
  "publish self msg w =
     (Inr (), self, sendMessage (pub_iTag self) (pub_msgType self) msg ''nil'' w)"

subsection \<open>Subscriber\<close>

record subscriber =
  sub_id :: nat
  sub_iTag :: tag
  sub_msgType :: msgtype
  sub_cb :: pyval

text \<open>\<^verbatim>\<open>_Subscriber.__init__\<close>; \<open>ident\<close> is the identity of the new object.\<close>

definition Subscriber_init :: "nat \<Rightarrow> tag \<Rightarrow> msgtype \<Rightarrow> pyval \<Rightarrow> subscriber" where
  "Subscriber_init ident iTag msgType cb =
     \<lparr>sub_id = ident, sub_iTag = iTag, sub_msgType = msgType, sub_cb = cb\<rparr>"

text \<open>\<^verbatim>\<open>_Subscriber.unsubscribe\<close>: nothing but the call into the connection.\<close>

definition unsubscribe :: "subscriber \<Rightarrow> 'm world \<Rightarrow> (error + unit) \<times> subscriber \<times> 'm world" where
  "unsubscribe self w =
     (case unregisterInterface (sub_iTag self) (sub_id self) w of
        (r, w') \<Rightarrow> (r, self, w'))"

text \<open>
  \<^verbatim>\<open>_Subscriber.callback\<close>: the type check, then the call
  \<^verbatim>\<open>self._cb(msg)\<close>, with nothing around it: what the call raises leaves
  \<^verbatim>\<open>callback\<close>. The third argument (the message id) is ignored;
  \<open>raised\<close> is what the user callback raises in this delivery, if anything.
\<close>

definition Subscriber_callback ::
  "subscriber \<Rightarrow> msgtype \<Rightarrow> 'm \<Rightarrow> uid \<Rightarrow> error option \<Rightarrow> 'm world
     \<Rightarrow> (error + unit) \<times> subscriber \<times> 'm world" where
  "Subscriber_callback self msgType msg msgID raised w =
     (if \<not> msgType = sub_msgType self
      then (Inl (TypeError ''Received unexpected message type.''), self, w)
      else (case py_call (sub_cb self) msg raised w of (r, w') \<Rightarrow> (r, self, w')))"

subsection \<open>Service\<close>

text \<open>
  The attributes of a \<^verbatim>\<open>_Service\<close> and of its two subclasses.
  \<open>srv_msgType\<close> is the attribute \<^verbatim>\<open>_msgType\<close>, which
  \<^verbatim>\<open>callback\<close> reads: \<open>None\<close> when the object has no such attribute.
  \<open>srv_cb\<close> belongs to \<^verbatim>\<open>Service\<close>; \<open>srv_running\<close> (the
  \<^verbatim>\<open>rospy.Service\<close> handle) and \<open>srv_pending\<close> belong to
  \<^verbatim>\<open>ROSService\<close>. The two dictionaries are association lists with distinct
  keys.
\<close>

record 'm service =
  srv_id :: nat
  srv_iTag :: tag
  srv_srvType :: msgtype
  srv_msgType :: "msgtype option"
  srv_responses :: "(uid \<times> deferred) list"
  srv_cb :: pyval
  srv_running :: bool
  srv_pending :: "(uid \<times> 'm pyobj) list"

text \<open>
  \<^verbatim>\<open>Service.__init__\<close> with the \<^verbatim>\<open>_Service.__init__\<close> it calls:
  the assignments are to \<^verbatim>\<open>_conn\<close>, \<^verbatim>\<open>_iTag\<close>,
  \<^verbatim>\<open>_srvType\<close>, \<^verbatim>\<open>_responses\<close> and \<^verbatim>\<open>_cb\<close>.
  Nothing is assigned to \<^verbatim>\<open>_msgType\<close>.
\<close>

definition Service_init :: "nat \<Rightarrow> tag \<Rightarrow> msgtype \<Rightarrow> pyval \<Rightarrow> 'm service" where
  "Service_init ident iTag srvType cb =
     \<lparr>srv_id = ident, srv_iTag = iTag, srv_srvType = srvType, srv_msgType = None,
      srv_responses = [], srv_cb = cb, srv_running = False, srv_pending = []\<rparr>"


text \<open>
  \<^verbatim>\<open>ROSService._callback(msg, uid, event)\<close>: the message is wrapped, stored
  in \<^verbatim>\<open>_pending\<close> under the id, and the event is set.
\<close>

definition ROSService_callback ::
  "'m service \<Rightarrow> 'm \<Rightarrow> uid \<Rightarrow> nat \<Rightarrow> 'm world \<Rightarrow> (error + unit) \<times> 'm service \<times> 'm world" where
  "ROSService_callback self msg uid event w =
     (Inr (),
      self\<lparr>srv_pending := AList.update uid (AnyMsg msg) (srv_pending self)\<rparr>,
      w\<lparr>events := (events w)[event := True]\<rparr>)"

text \<open>
  \<^verbatim>\<open>deferred.callback(msg)\<close>: the callback added to the deferred runs with the
  message (and the extra arguments given to \<^verbatim>\<open>addCallback\<close>). A
  \<^verbatim>\<open>Deferred\<close> catches and keeps whatever its callback raises, so the call
  itself returns normally whether the callback returns or raises; what is left of the
  callback is its invocation, which is the same for every outcome (lemma
  \<open>py_call_world\<close> below).
\<close>

fun fire :: "deferred \<Rightarrow> 'm \<Rightarrow> 'm service \<Rightarrow> 'm world \<Rightarrow> (error + unit) \<times> 'm service \<times> 'm world" where
  "fire (Deferred (UserCb cb)) msg self w =
     (case py_call cb msg None w of (r, w') \<Rightarrow> (Inr (), self, w'))"
| "fire (Deferred (RosCallback uid event)) msg self w =
     (case ROSService_callback self msg uid event w of (r, self', w') \<Rightarrow> (Inr (), self', w'))"

text \<open>
  \<^verbatim>\<open>_Service.callback\<close>. The comparison reads \<^verbatim>\<open>self._msgType\<close>
  first: an object without that attribute raises \<^verbatim>\<open>AttributeError\<close> there.
  \<^verbatim>\<open>pop(msgID, None)\<close> removes the entry if there is one; a deferred is
  always true, \<^verbatim>\<open>None\<close> is not.
\<close>

definition Service_callback ::
  "'m service \<Rightarrow> msgtype \<Rightarrow> 'm \<Rightarrow> uid \<Rightarrow> 'm world \<Rightarrow> (error + unit) \<times> 'm service \<times> 'm world" where
  "Service_callback self msgType msg msgID w =
     (case srv_msgType self of
        None \<Rightarrow> (Inl (AttributeError ''_msgType''), self, w)
      | Some t \<Rightarrow>
          if \<not> msgType = t
          then (Inl (TypeError ''Received unexpected message type.''), self, w)
          else (case map_of (srv_responses self) msgID of
                  None \<Rightarrow> (Inr (), self, w)
                | Some d \<Rightarrow>
                    fire d msg
                      (self\<lparr>srv_responses := AList.delete msgID (srv_responses self)\<rparr>) w))"

text \<open>
  \<^verbatim>\<open>Service.call(msg, cb=None)\<close>; \<open>uid\<close> is the value that
  \<^verbatim>\<open>uuid4().hex\<close> returns in this call.
\<close>

definition Service_call ::
  "'m service \<Rightarrow> 'm \<Rightarrow> pyval \<Rightarrow> uid \<Rightarrow> 'm world \<Rightarrow> (error + unit) \<times> 'm service \<times> 'm world" where
  "Service_call self msg cb uid w =
     (let cb' = (if \<not> truthy cb then srv_cb self else cb) in
      if \<not> callable cb'
      then (Inl (TypeError ''Callback has to be callable.''), self, w)
      else (Inr (),
            self\<lparr>srv_responses := AList.update uid (Deferred (UserCb cb')) (srv_responses self)\<rparr>,
            sendMessage (srv_iTag self) (srv_srvType self) msg uid w))"

text \<open>\<^verbatim>\<open>_Service.__del__\<close>: the endpoint leaves the registry of the connection.\<close>

definition Service_del :: "'m service \<Rightarrow> 'm world \<Rightarrow> (error + unit) \<times> 'm service \<times> 'm world" where
  "Service_del self w =
     (case unregisterInterface (srv_iTag self) (srv_id self) w of
        (r, w') \<Rightarrow> (r, self, w'))"

subsection \<open>The synchronous bridge\<close>

text \<open>
  \<^verbatim>\<open>ROSService._rosCB\<close> blocks in \<^verbatim>\<open>event.wait()\<close>, so it is
  embedded in two parts. The first part runs from the entry to the send: it creates the
  event (unset, at the next free index), stores the deferred under the id that
  \<^verbatim>\<open>uuid4().hex\<close> returns, and sends the request. It returns the event the
  caller then waits on.
\<close>

definition ROSService_rosCB_send ::
  "'m service \<Rightarrow> 'm \<Rightarrow> uid \<Rightarrow> 'm world \<Rightarrow> nat \<times> 'm service \<times> 'm world" where
  "ROSService_rosCB_send self req uid w =
     (let event = length (events w);
          w1 = w\<lparr>events := events w @ [False]\<rparr>;
          self1 = self\<lparr>srv_responses :=
                    AList.update uid (Deferred (RosCallback uid event)) (srv_responses self)\<rparr>
      in (event, self1, sendMessage (srv_iTag self1) (srv_srvType self1) req uid w1))"

text \<open>
  The second part runs from \<^verbatim>\<open>event.wait()\<close> to the end. While the event is
  unset the caller is blocked: the value is \<open>None\<close>. Once it is set, the slot of the
  id is popped from \<^verbatim>\<open>_pending\<close>; a message is returned, anything else
  (also no slot at all) raises \<^verbatim>\<open>Exception('Interrupted.')\<close>.
\<close>

definition ROSService_rosCB_wake ::
  "'m service \<Rightarrow> uid \<Rightarrow> nat \<Rightarrow> 'm world \<Rightarrow> ((error + 'm pyobj) \<times> 'm service \<times> 'm world) option" where
  "ROSService_rosCB_wake self uid event w =
     (if event < length (events w) \<and> events w ! event
      then Some
        (case map_of (srv_pending self) uid of
           None \<Rightarrow> (Inl (Exception ''Interrupted.''), self, w)
         | Some response \<Rightarrow>
             (if \<not> isinstance_Message response
              then (Inl (Exception ''Interrupted.''),
                    self\<lparr>srv_pending := AList.delete uid (srv_pending self)\<rparr>, w)
              else (Inr response,
                    self\<lparr>srv_pending := AList.delete uid (srv_pending self)\<rparr>, w)))
      else None)"

text \<open>
  The loop of \<^verbatim>\<open>ROSService.__del__\<close>: \<^verbatim>\<open>set()\<close> is called on
  every value of \<^verbatim>\<open>_pending\<close>. An event is set; a message has no such
  method, and the loop ends there with \<^verbatim>\<open>AttributeError\<close>.
\<close>

fun set_each :: "'m pyobj list \<Rightarrow> 'm world \<Rightarrow> (error + unit) \<times> 'm world" where
  "set_each [] w = (Inr (), w)"
| "set_each (EventObj e # vs) w = set_each vs (w\<lparr>events := (events w)[e := True]\<rparr>)"
| "set_each (AnyMsg b # vs) w = (Inl (AttributeError ''set''), w)"

text \<open>
  \<^verbatim>\<open>ROSService.__del__\<close>: the finalizer of \<^verbatim>\<open>_Service\<close>, the
  shutdown of the \<^verbatim>\<open>rospy.Service\<close>, the loop over
  \<^verbatim>\<open>_pending\<close>, and the reset of \<^verbatim>\<open>_pending\<close>.
\<close>

definition ROSService_del :: "'m service \<Rightarrow> 'm world \<Rightarrow> (error + unit) \<times> 'm service \<times> 'm world" where
  "ROSService_del self w =
     (case Service_del self w of
        (Inl e, self1, w1) \<Rightarrow> (Inl e, self1, w1)
      | (Inr u, self1, w1) \<Rightarrow>
          (let self2 = self1\<lparr>srv_running := False\<rparr> in
           case set_each (map snd (srv_pending self2)) w1 of
             (Inl e, w2) \<Rightarrow> (Inl e, self2, w2)
           | (Inr u', w2) \<Rightarrow> (Inr (), self2\<lparr>srv_pending := []\<rparr>, w2)))"

subsection \<open>The life of a bridge\<close>





subsection \<open>Sequences of calls and replies\<close>

text \<open>
  An endpoint sees calls from its owner and replies from the connection, in any order. A
  sequence of them is run from left to right, whatever each one returns or raises.
\<close>

datatype 'm op = Call 'm pyval uid | Reply msgtype 'm uid

fun step :: "'m op \<Rightarrow> 'm service \<times> 'm world \<Rightarrow> 'm service \<times> 'm world" where
  "step (Call msg cb uid) (s, w) = snd (Service_call s msg cb uid w)"
| "step (Reply msgType msg msgID) (s, w) = snd (Service_callback s msgType msg msgID w)"

definition run :: "'m op list \<Rightarrow> 'm service \<times> 'm world \<Rightarrow> 'm service \<times> 'm world" where
  "run ops st = fold step ops st"

text \<open>A connection on which nothing has happened yet.\<close>

definition idle_world :: "'m world" where
  "idle_world = \<lparr>sent = [], registry = [], invoked = [], events = []\<rparr>"

section \<open>Facts about the service callback\<close>

text \<open>Whatever a callable raises, the trace it leaves is the same.\<close>

lemma py_call_world: "snd (py_call f arg raised w) = snd (py_call f arg None w)"
  by (simp add: py_call_def)

text \<open>
  An object without the attribute \<^verbatim>\<open>_msgType\<close> answers every delivery
  with \<^verbatim>\<open>AttributeError\<close> and changes nothing.
\<close>

lemma Service_callback_unbound:
  "srv_msgType s = None \<Longrightarrow>
     Service_callback s mt msg mid w = (Inl (AttributeError ''_msgType''), s, w)"
  by (simp add: Service_callback_def)

text \<open>No method of the module assigns the attribute.\<close>

lemma Service_call_keeps_msgType:
  "srv_msgType (fst (snd (Service_call s msg cb u w))) = srv_msgType s"
  by (simp add: Service_call_def Let_def)

lemma step_unbound:
  assumes "srv_msgType s = None"
  shows "srv_msgType (fst (step x (s, w))) = None
       \<and> invoked (snd (step x (s, w))) = invoked w
       \<and> fst ` set (srv_responses s) \<subseteq> fst ` set (srv_responses (fst (step x (s, w))))"
proof (cases x)
  case (Call msg cb uid)
  then show ?thesis
    using assms by (auto simp: Service_call_def Let_def sendMessage_def dom_update)
next
  case (Reply mt msg mid)
  then show ?thesis
    using assms by (simp add: Service_callback_unbound)
qed

lemma run_unbound:
  "srv_msgType s = None \<Longrightarrow>
     srv_msgType (fst (run ops (s, w))) = None
     \<and> invoked (snd (run ops (s, w))) = invoked w
     \<and> fst ` set (srv_responses s) \<subseteq> fst ` set (srv_responses (fst (run ops (s, w))))"
proof (induction ops arbitrary: s w)
  case Nil
  then show ?case by (simp add: run_def)
next
  case (Cons x xs)
  obtain s' w' where st: "step x (s, w) = (s', w')" by (cases "step x (s, w)")
  from step_unbound [OF Cons.prems, of x w] st
  have a: "srv_msgType s' = None" and b: "invoked w' = invoked w"
    and c: "fst ` set (srv_responses s) \<subseteq> fst ` set (srv_responses s')"
    by simp_all
  from Cons.IH [OF a, of w'] b c st show ?case
    by (auto simp: run_def)
qed

text \<open>
  Had the attribute been bound to the type of the replies (from outside the module, by
  \<^verbatim>\<open>srv._msgType = ...\<close>), the rest of \<^verbatim>\<open>callback\<close> would do
  what is expected of it: a pending id is consumed and its continuation invoked once, an
  unknown id is dropped in silence, and the bridge returns the reply to its caller.
\<close>

lemma Service_callback_bound_reply:
  assumes "srv_msgType s = Some mt"
    and "map_of (srv_responses s) mid = Some (Deferred (UserCb f))"
    and "callable f"
  shows "Service_callback s mt msg mid w =
           (Inr (), s\<lparr>srv_responses := AList.delete mid (srv_responses s)\<rparr>,
            w\<lparr>invoked := invoked w @ [(f, msg)]\<rparr>)"
  using assms by (simp add: Service_callback_def py_call_def)

lemma Service_callback_bound_absent:
  assumes "srv_msgType s = Some mt" and "map_of (srv_responses s) mid = None"
  shows "Service_callback s mt msg mid w = (Inr (), s, w)"
  using assms by (simp add: Service_callback_def)

lemma call_reply_roundtrip_if_bound:
  assumes "srv_msgType s = Some (srv_srvType s)" and "truthy cb" and "callable cb"
  shows "Service_callback (fst (snd (Service_call s req cb u w))) (srv_srvType s) reply u
           (snd (snd (Service_call s req cb u w)))
         = (Inr (),
            s\<lparr>srv_responses := AList.delete u (srv_responses s)\<rparr>,
            w\<lparr>sent := sent w @ [(srv_iTag s, srv_srvType s, req, u)],
              invoked := invoked w @ [(cb, reply)]\<rparr>)"
  using assms
  by (simp add: Service_call_def Service_callback_def py_call_def sendMessage_def
        update_conv' delete_update_same)

lemma bridge_roundtrip_if_bound:
  assumes "srv_msgType s = Some (srv_srvType s)"
    and "ROSService_rosCB_send s req u w = (ev, s1, w1)"
    and "Service_callback s1 (srv_srvType s) reply u w1 = (r, s2, w2)"
  shows "r = Inr () \<and>
         ROSService_rosCB_wake s2 u ev w2 =
           Some (Inr (AnyMsg reply), s2\<lparr>srv_pending := AList.delete u (srv_pending s2)\<rparr>, w2)"
  using assms
  by (auto simp: ROSService_rosCB_send_def Service_callback_def ROSService_callback_def
        ROSService_rosCB_wake_def sendMessage_def Let_def update_conv' nth_append)

text \<open>
  The finalizer of the bridge sets no event as long as \<^verbatim>\<open>_pending\<close> holds
  messages only, and \<^verbatim>\<open>_callback\<close> stores nothing else there.
\<close>

lemma set_each_messages:
  "\<forall>v \<in> set vs. isinstance_Message v \<Longrightarrow>
     set_each vs w = (if vs = [] then Inr () else Inl (AttributeError ''set''), w)"
  by (cases vs; cases "hd vs") auto

lemma ROSService_del_messages:
  "\<forall>v \<in> set (map snd (srv_pending s)). isinstance_Message v \<Longrightarrow>
     events (snd (snd (ROSService_del s w))) = events w"
  by (simp add: ROSService_del_def Service_del_def unregisterInterface_def set_each_messages
        Let_def)

lemma update_message:
  "\<forall>v \<in> set (map snd al). isinstance_Message v \<Longrightarrow>
     \<forall>v \<in> set (map snd (AList.update k (AnyMsg b) al)). isinstance_Message v"
  by (induction al) auto

lemma ROSService_callback_stores_message:
  assumes "\<forall>v \<in> set (map snd (srv_pending s)). isinstance_Message v"
  shows "\<forall>v \<in> set (map snd (srv_pending (fst (snd (ROSService_callback s msg u e w))))).
           isinstance_Message v"
proof -
  have "srv_pending (fst (snd (ROSService_callback s msg u e w)))
          = AList.update u (AnyMsg msg) (srv_pending s)"
    by (simp add: ROSService_callback_def)
  then show ?thesis
    using update_message [OF assms, of u msg] by (simp only:)
qed

section \<open>Calling a service and receiving the reply\<close>

text \<open>
  C1. A call stores the continuation under the id drawn for it and sends the request
  tagged with that id; a reply of the endpoint's declared type with that id then has to
  invoke the continuation once with the reply's payload. On an endpoint built by the
  constructor the first half happens, the second does not: the delivery of the reply
  raises \<^verbatim>\<open>AttributeError\<close>, the continuation stays in the table and is
  not invoked.
\<close>

theorem call_then_reply_raises:
  "Service_call (Service_init 1 ''srv'' ''pkg/Srv'' PyNone) ''request'' (PyObj 7 True True) ''u1''
      idle_world
     = (Inr (),
        (Service_init 1 ''srv'' ''pkg/Srv'' PyNone)
          \<lparr>srv_responses := [(''u1'', Deferred (UserCb (PyObj 7 True True)))]\<rparr>,
        idle_world\<lparr>sent := [(''srv'', ''pkg/Srv'', ''request'', ''u1'')]\<rparr>)
   \<and> Service_callback
        ((Service_init 1 ''srv'' ''pkg/Srv'' PyNone)
           \<lparr>srv_responses := [(''u1'', Deferred (UserCb (PyObj 7 True True)))]\<rparr>)
        ''pkg/Srv'' ''reply'' ''u1''
        (idle_world\<lparr>sent := [(''srv'', ''pkg/Srv'', ''request'', ''u1'')]\<rparr>)
     = (Inl (AttributeError ''_msgType''),
        (Service_init 1 ''srv'' ''pkg/Srv'' PyNone)
          \<lparr>srv_responses := [(''u1'', Deferred (UserCb (PyObj 7 True True)))]\<rparr>,
        idle_world\<lparr>sent := [(''srv'', ''pkg/Srv'', ''request'', ''u1'')]\<rparr>)"
  by (simp add: Service_call_def Service_callback_def Service_init_def sendMessage_def
        idle_world_def)

text \<open>
  C3. A reply whose id is not in the pending table has to pass without effect: no
  exception, no continuation invoked, the table unchanged. On an endpoint built by the
  constructor, with an empty table, such a reply leaves the table and the callbacks
  alone, but the delivery raises \<^verbatim>\<open>AttributeError\<close>.
\<close>

theorem unknown_id_reply_raises:
  "map_of (srv_responses (Service_init 1 ''srv'' ''pkg/Srv'' (PyObj 7 True True) :: string service))
      ''u9'' = None
   \<and> Service_callback (Service_init 1 ''srv'' ''pkg/Srv'' (PyObj 7 True True))
        ''pkg/Srv'' ''reply'' ''u9'' idle_world
     = (Inl (AttributeError ''_msgType''),
        Service_init 1 ''srv'' ''pkg/Srv'' (PyObj 7 True True), idle_world)"
  by (simp add: Service_callback_def Service_init_def)

text \<open>
  C4. The pending table has to hold an id exactly from its call to the reply that
  consumes it, so that the id is absent after its reply. On an object without the
  attribute \<^verbatim>\<open>_msgType\<close> (every endpoint built by the constructors, after
  any calls), no sequence of calls and replies ever removes an id from the table or
  invokes a continuation: an id that is pending stays pending.
\<close>

theorem pending_ids_never_consumed:
  assumes "srv_msgType s = None" and "u \<in> fst ` set (srv_responses s)"
  shows "u \<in> fst ` set (srv_responses (fst (run ops (s, w))))
       \<and> invoked (snd (run ops (s, w))) = invoked w"
  using run_unbound [OF assms(1), of ops w] assms(2) by blast

text \<open>
  The scenario of the specification: endpoint \<^verbatim>\<open>srv1\<close>, the call stored
  under \<^verbatim>\<open>u1\<close>, then the reply tagged \<^verbatim>\<open>u1\<close>, delivered twice.
  The id is still in the table and the continuation has not run.
\<close>

theorem pending_ids_never_consumed_witness:
  "srv_msgType (fst (run [Call ''{op: add, a: 2, b: 3}'' (PyObj 7 True True) ''u1'']
                    (Service_init 1 ''srv1'' ''pkg/Add'' PyNone, idle_world))) = None
   \<and> ''u1'' \<in> fst ` set (srv_responses
        (fst (run [Call ''{op: add, a: 2, b: 3}'' (PyObj 7 True True) ''u1'']
                (Service_init 1 ''srv1'' ''pkg/Add'' PyNone, idle_world))))
   \<and> ''u1'' \<in> fst ` set (srv_responses
        (fst (run [Reply ''pkg/Add'' ''{sum: 5}'' ''u1'', Reply ''pkg/Add'' ''{sum: 5}'' ''u1'']
                (run [Call ''{op: add, a: 2, b: 3}'' (PyObj 7 True True) ''u1'']
                   (Service_init 1 ''srv1'' ''pkg/Add'' PyNone, idle_world)))))
   \<and> invoked (snd (run [Reply ''pkg/Add'' ''{sum: 5}'' ''u1'', Reply ''pkg/Add'' ''{sum: 5}'' ''u1'']
                (run [Call ''{op: add, a: 2, b: 3}'' (PyObj 7 True True) ''u1'']
                   (Service_init 1 ''srv1'' ''pkg/Add'' PyNone, idle_world)))) = []"
proof -
  let ?st = "run [Call ''{op: add, a: 2, b: 3}'' (PyObj 7 True True) ''u1'']
               (Service_init 1 ''srv1'' ''pkg/Add'' PyNone, idle_world :: string world)"
  have st: "?st =
      ((Service_init 1 ''srv1'' ''pkg/Add'' PyNone)
         \<lparr>srv_responses := [(''u1'', Deferred (UserCb (PyObj 7 True True)))]\<rparr>,
       idle_world\<lparr>sent := [(''srv1'', ''pkg/Add'', ''{op: add, a: 2, b: 3}'', ''u1'')]\<rparr>)"
    by (simp add: run_def Service_call_def Service_init_def sendMessage_def idle_world_def)
  have h1: "srv_msgType (fst ?st) = None"
    unfolding st by (simp add: Service_init_def)
  have h2: "''u1'' \<in> fst ` set (srv_responses (fst ?st))"
    unfolding st by simp
  have w: "invoked (snd ?st) = []"
    unfolding st by (simp add: idle_world_def)
  from pending_ids_never_consumed [OF h1 h2,
         of "[Reply ''pkg/Add'' ''{sum: 5}'' ''u1'', Reply ''pkg/Add'' ''{sum: 5}'' ''u1'']"
            "snd ?st"]
  show ?thesis using h1 h2 w by simp
qed

section \<open>Rejecting a call without a callable continuation\<close>

text \<open>
  C5. Whenever the continuation that a call would use (the argument, or the default of
  the endpoint when the argument is false) is not callable, the call raises
  \<^verbatim>\<open>TypeError\<close> at once: nothing is sent, and the endpoint with its pending
  table is unchanged.
\<close>

theorem call_rejects_non_callable:
  "\<not> callable (if truthy cb then cb else srv_cb s) \<Longrightarrow>
     Service_call s msg cb u w = (Inl (TypeError ''Callback has to be callable.''), s, w)"
  by (simp add: Service_call_def Let_def split: if_splits)

theorem call_rejects_non_callable_witness:
  "\<not> callable (if truthy (PyObj 3 True False) then PyObj 3 True False
                 else srv_cb (Service_init 1 ''srv1'' ''pkg/Add'' (PyObj 5 True True) :: string service))
   \<and> Service_call (Service_init 1 ''srv1'' ''pkg/Add'' (PyObj 5 True True)) ''req''
        (PyObj 3 True False) ''u1''
        \<lparr>sent = [], registry = [(''srv1'', 1)], invoked = [], events = []\<rparr>
     = (Inl (TypeError ''Callback has to be callable.''),
        Service_init 1 ''srv1'' ''pkg/Add'' (PyObj 5 True True),
        \<lparr>sent = [], registry = [(''srv1'', 1)], invoked = [], events = []\<rparr>)"
  using call_rejects_non_callable
          [of "PyObj 3 True False" "Service_init 1 ''srv1'' ''pkg/Add'' (PyObj 5 True True)"
              "''req''" "''u1''"
              "\<lparr>sent = [], registry = [(''srv1'', 1)], invoked = [], events = []\<rparr>"]
  by simp

text \<open>
  C10. A call whose callback argument is omitted or \<^verbatim>\<open>None\<close> (or any other
  false value) uses the default callback given to the constructor, whatever the endpoint
  has pending, and the check for a callable is made on that default: with a callable
  default the call succeeds, storing the default as continuation under the new id and
  sending the request; with a default that is not callable, \<^verbatim>\<open>None\<close> in
  particular, it raises, and nothing is stored or sent. The default of an endpoint is
  the callback its constructor was given.
\<close>

theorem call_default_callback:
  "(\<not> truthy cb \<and> callable (srv_cb s) \<longrightarrow>
      Service_call s msg cb u w =
        (Inr (),
         s\<lparr>srv_responses := AList.update u (Deferred (UserCb (srv_cb s))) (srv_responses s)\<rparr>,
         w\<lparr>sent := sent w @ [(srv_iTag s, srv_srvType s, msg, u)]\<rparr>))
   \<and> (\<not> truthy cb \<and> \<not> callable (srv_cb s) \<longrightarrow>
      Service_call s msg cb u w =
        (Inl (TypeError ''Callback has to be callable.''), s, w))
   \<and> \<not> truthy PyNone
   \<and> srv_cb (Service_init i t ty d :: 'm service) = d
   \<and> Service_call (Service_init i t ty PyNone) msg PyNone u w =
        (Inl (TypeError ''Callback has to be callable.''), Service_init i t ty PyNone, w)"
  by (simp add: Service_call_def Service_init_def sendMessage_def)

text \<open>
  An endpoint with a callable default and one call already pending under
  \<^verbatim>\<open>u1\<close>: a second call without callback is stored under \<^verbatim>\<open>u2\<close>
  with the default. An endpoint with a pending call and a default that is not callable:
  the call without callback raises.
\<close>

theorem call_default_callback_witness:
  "\<not> truthy PyNone
   \<and> callable (srv_cb ((Service_init 1 ''srv1'' ''pkg/Add'' (PyObj 5 True True) :: string service)
        \<lparr>srv_responses := [(''u1'', Deferred (UserCb (PyObj 7 True True)))]\<rparr>))
   \<and> Service_call
        ((Service_init 1 ''srv1'' ''pkg/Add'' (PyObj 5 True True))
           \<lparr>srv_responses := [(''u1'', Deferred (UserCb (PyObj 7 True True)))]\<rparr>)
        ''req'' PyNone ''u2'' idle_world
     = (Inr (),
        (Service_init 1 ''srv1'' ''pkg/Add'' (PyObj 5 True True))
           \<lparr>srv_responses := [(''u1'', Deferred (UserCb (PyObj 7 True True))),
                              (''u2'', Deferred (UserCb (PyObj 5 True True)))]\<rparr>,
        idle_world\<lparr>sent := [(''srv1'', ''pkg/Add'', ''req'', ''u2'')]\<rparr>)
   \<and> \<not> callable (srv_cb ((Service_init 1 ''srv1'' ''pkg/Add'' (PyObj 6 True False) :: string service)
        \<lparr>srv_responses := [(''u1'', Deferred (UserCb (PyObj 7 True True)))]\<rparr>))
   \<and> Service_call
        ((Service_init 1 ''srv1'' ''pkg/Add'' (PyObj 6 True False))
           \<lparr>srv_responses := [(''u1'', Deferred (UserCb (PyObj 7 True True)))]\<rparr>)
        ''req'' PyNone ''u2'' idle_world
     = (Inl (TypeError ''Callback has to be callable.''),
        (Service_init 1 ''srv1'' ''pkg/Add'' (PyObj 6 True False))
           \<lparr>srv_responses := [(''u1'', Deferred (UserCb (PyObj 7 True True)))]\<rparr>,
        idle_world)"
proof -
  let ?s = "(Service_init 1 ''srv1'' ''pkg/Add'' (PyObj 5 True True) :: string service)
              \<lparr>srv_responses := [(''u1'', Deferred (UserCb (PyObj 7 True True)))]\<rparr>"
  let ?s' = "(Service_init 1 ''srv1'' ''pkg/Add'' (PyObj 6 True False) :: string service)
              \<lparr>srv_responses := [(''u1'', Deferred (UserCb (PyObj 7 True True)))]\<rparr>"
  have t: "\<not> truthy PyNone" by simp
  have c: "callable (srv_cb ?s)" by (simp add: Service_init_def)
  have c': "\<not> callable (srv_cb ?s')" by (simp add: Service_init_def)
  from call_default_callback [of PyNone ?s "''req''" "''u2''" idle_world] t c
  have a: "Service_call ?s ''req'' PyNone ''u2'' idle_world =
        (Inr (),
         ?s\<lparr>srv_responses := AList.update ''u2'' (Deferred (UserCb (srv_cb ?s))) (srv_responses ?s)\<rparr>,
         idle_world\<lparr>sent := sent idle_world @ [(srv_iTag ?s, srv_srvType ?s, ''req'', ''u2'')]\<rparr>)"
    by blast
  from call_default_callback [of PyNone ?s' "''req''" "''u2''" idle_world] t c'
  have b: "Service_call ?s' ''req'' PyNone ''u2'' idle_world =
        (Inl (TypeError ''Callback has to be callable.''), ?s', idle_world)"
    by blast
  have e: "?s\<lparr>srv_responses := AList.update ''u2'' (Deferred (UserCb (srv_cb ?s))) (srv_responses ?s)\<rparr>
           = (Service_init 1 ''srv1'' ''pkg/Add'' (PyObj 5 True True))
               \<lparr>srv_responses := [(''u1'', Deferred (UserCb (PyObj 7 True True))),
                                  (''u2'', Deferred (UserCb (PyObj 5 True True)))]\<rparr>"
    by (simp add: Service_init_def)
  have f: "idle_world\<lparr>sent := sent idle_world @ [(srv_iTag ?s, srv_srvType ?s, ''req'', ''u2'')]\<rparr>
           = (idle_world\<lparr>sent := [(''srv1'', ''pkg/Add'', ''req'', ''u2'')]\<rparr> :: string world)"
    by (simp add: Service_init_def idle_world_def)
  from a e f have a': "Service_call ?s ''req'' PyNone ''u2'' idle_world
     = (Inr (),
        (Service_init 1 ''srv1'' ''pkg/Add'' (PyObj 5 True True))
           \<lparr>srv_responses := [(''u1'', Deferred (UserCb (PyObj 7 True True))),
                              (''u2'', Deferred (UserCb (PyObj 5 True True)))]\<rparr>,
        idle_world\<lparr>sent := [(''srv1'', ''pkg/Add'', ''req'', ''u2'')]\<rparr>)"
    by (simp only:)
  from t c a' c' b show ?thesis by blast
qed

section \<open>Publishing\<close>

text \<open>
  C9. For every message, \<^verbatim>\<open>publish\<close> performs exactly one downstream send,
  carrying the endpoint's tag, its message type, the given message and the sentinel
  \<^verbatim>\<open>'nil'\<close> as correlation id. It returns no result and raises nothing, and
  it leaves the endpoint, the registry, the callbacks invoked and the events as they
  were.
\<close>

theorem publish_one_send:
  "fst (publish p msg w) = Inr ()
   \<and> fst (snd (publish p msg w)) = p
   \<and> sent (snd (snd (publish p msg w))) = sent w @ [(pub_iTag p, pub_msgType p, msg, ''nil'')]
   \<and> length (sent (snd (snd (publish p msg w)))) = Suc (length (sent w))
   \<and> registry (snd (snd (publish p msg w))) = registry w
   \<and> invoked (snd (snd (publish p msg w))) = invoked w
   \<and> events (snd (snd (publish p msg w))) = events w"
  by (simp add: publish_def sendMessage_def)

section \<open>Subscribing\<close>

text \<open>
  C7, as first stated: on a message of the expected type the user callback is invoked
  exactly once, for every subscriber endpoint. The constructor takes any value as
  callback; with \<^verbatim>\<open>None\<close> a message of the expected type raises
  \<^verbatim>\<open>TypeError\<close> and nothing is invoked.
\<close>

theorem Subscriber_callback_none_counterexample:
  "''Foo'' = sub_msgType (Subscriber_init 1 ''topic1'' ''Foo'' PyNone)
   \<and> Subscriber_callback (Subscriber_init 1 ''topic1'' ''Foo'' PyNone)
        ''Foo'' ''payload'' ''nil'' None (idle_world\<lparr>registry := [(''topic1'', 1)]\<rparr>)
     = (Inl (TypeError ''object is not callable''),
        Subscriber_init 1 ''topic1'' ''Foo'' PyNone,
        idle_world\<lparr>registry := [(''topic1'', 1)]\<rparr>)
   \<and> invoked (snd (snd (Subscriber_callback (Subscriber_init 1 ''topic1'' ''Foo'' PyNone)
        ''Foo'' ''payload'' ''nil'' None (idle_world\<lparr>registry := [(''topic1'', 1)]\<rparr>)))) = []"
  by (simp add: Subscriber_callback_def Subscriber_init_def py_call_def idle_world_def)

text \<open>
  C7, amended. A message delivered to the callback of a subscriber with a type other
  than the one the endpoint expects raises \<^verbatim>\<open>TypeError\<close> (the protocol type
  error) and the user callback is not invoked. With the expected type and a callable as
  the endpoint's callback, the callback is invoked exactly once, with the payload of the
  message, and the delivery returns, or raises what the callback raises. With the
  expected type and a callback that is not callable, the delivery raises
  \<^verbatim>\<open>TypeError\<close> and nothing is invoked.
\<close>

theorem Subscriber_callback_dispatch:
  "(mt \<noteq> sub_msgType s \<longrightarrow>
      Subscriber_callback s mt msg i raised w =
        (Inl (TypeError ''Received unexpected message type.''), s, w))
   \<and> (mt = sub_msgType s \<and> callable (sub_cb s) \<longrightarrow>
      Subscriber_callback s mt msg i raised w =
        ((case raised of None \<Rightarrow> Inr () | Some e \<Rightarrow> Inl e), s,
         w\<lparr>invoked := invoked w @ [(sub_cb s, msg)]\<rparr>))
   \<and> (mt = sub_msgType s \<and> \<not> callable (sub_cb s) \<longrightarrow>
      Subscriber_callback s mt msg i raised w =
        (Inl (TypeError ''object is not callable''), s, w))"
  by (simp add: Subscriber_callback_def py_call_def)

text \<open>
  The scenario of the specification: a subscriber to \<^verbatim>\<open>topic1\<close> expecting
  \<^verbatim>\<open>Foo\<close> receives a message declared as \<^verbatim>\<open>Bar\<close>; then one
  declared as \<^verbatim>\<open>Foo\<close> on which its callback returns, and one on which its
  callback raises.
\<close>

theorem Subscriber_callback_dispatch_witness:
  "Subscriber_callback (Subscriber_init 1 ''topic1'' ''Foo'' (PyObj 5 True True))
      ''Bar'' ''payload'' ''nil'' None
      \<lparr>sent = [], registry = [(''topic1'', 1)], invoked = [], events = []\<rparr>
    = (Inl (TypeError ''Received unexpected message type.''),
       Subscriber_init 1 ''topic1'' ''Foo'' (PyObj 5 True True),
       \<lparr>sent = [], registry = [(''topic1'', 1)], invoked = [], events = []\<rparr>)
   \<and> Subscriber_callback (Subscriber_init 1 ''topic1'' ''Foo'' (PyObj 5 True True))
      ''Foo'' ''payload'' ''nil'' None
      \<lparr>sent = [], registry = [(''topic1'', 1)], invoked = [], events = []\<rparr>
    = (Inr (),
       Subscriber_init 1 ''topic1'' ''Foo'' (PyObj 5 True True),
       \<lparr>sent = [], registry = [(''topic1'', 1)],
        invoked = [(PyObj 5 True True, ''payload'')], events = []\<rparr>)
   \<and> Subscriber_callback (Subscriber_init 1 ''topic1'' ''Foo'' (PyObj 5 True True))
      ''Foo'' ''payload'' ''nil'' (Some (Exception ''raised by the user callback''))
      \<lparr>sent = [], registry = [(''topic1'', 1)], invoked = [], events = []\<rparr>
    = (Inl (Exception ''raised by the user callback''),
       Subscriber_init 1 ''topic1'' ''Foo'' (PyObj 5 True True),
       \<lparr>sent = [], registry = [(''topic1'', 1)],
        invoked = [(PyObj 5 True True, ''payload'')], events = []\<rparr>)"
  using Subscriber_callback_dispatch
          [of "''Bar''" "Subscriber_init 1 ''topic1'' ''Foo'' (PyObj 5 True True)"
              "''payload''" "''nil''" None
              "\<lparr>sent = [], registry = [(''topic1'', 1)], invoked = [], events = []\<rparr>"]
        Subscriber_callback_dispatch
          [of "''Foo''" "Subscriber_init 1 ''topic1'' ''Foo'' (PyObj 5 True True)"
              "''payload''" "''nil''" None
              "\<lparr>sent = [], registry = [(''topic1'', 1)], invoked = [], events = []\<rparr>"]
        Subscriber_callback_dispatch
          [of "''Foo''" "Subscriber_init 1 ''topic1'' ''Foo'' (PyObj 5 True True)"
              "''payload''" "''nil''" "Some (Exception ''raised by the user callback'')"
              "\<lparr>sent = [], registry = [(''topic1'', 1)], invoked = [], events = []\<rparr>"]
  by (simp add: Subscriber_init_def)

text \<open>
  C8. Unsubscribing does not raise, whatever the registry of the connection holds: not
  the first time, not the second time in a row (which also changes nothing any more), and
  not when the tag of the endpoint is not registered at all (which changes nothing
  either). The method only forwards to the connection, so this is a property of the
  registry as the specification describes it.
\<close>

theorem unsubscribe_idempotent:
  "fst (unsubscribe s w) = Inr ()
   \<and> fst (unsubscribe s (snd (snd (unsubscribe s w)))) = Inr ()
   \<and> snd (unsubscribe s (snd (snd (unsubscribe s w)))) = snd (unsubscribe s w)
   \<and> (sub_iTag s \<notin> fst ` set (registry w) \<longrightarrow> unsubscribe s w = (Inr (), s, w))"
proof -
  have "(sub_iTag s, sub_id s) \<notin> set (registry w)" if "sub_iTag s \<notin> fst ` set (registry w)"
    using that by force
  then show ?thesis
    by (simp add: unsubscribe_def unregisterInterface_def)
qed

theorem unsubscribe_idempotent_witness:
  "''topic1'' \<notin> fst ` set [(''other'', 2::nat)]
   \<and> unsubscribe (Subscriber_init 1 ''topic1'' ''Foo'' (PyObj 5 True True))
        (idle_world\<lparr>registry := [(''other'', 2)]\<rparr> :: string world)
     = (Inr (), Subscriber_init 1 ''topic1'' ''Foo'' (PyObj 5 True True),
        idle_world\<lparr>registry := [(''other'', 2)]\<rparr>)
   \<and> fst (unsubscribe (Subscriber_init 1 ''topic1'' ''Foo'' (PyObj 5 True True))
        (snd (snd (unsubscribe (Subscriber_init 1 ''topic1'' ''Foo'' (PyObj 5 True True))
           (idle_world\<lparr>registry := [(''topic1'', 1), (''other'', 2)]\<rparr> :: string world)))))
     = Inr ()"
proof -
  have h: "sub_iTag (Subscriber_init 1 ''topic1'' ''Foo'' (PyObj 5 True True))
             \<notin> fst ` set (registry (idle_world\<lparr>registry := [(''other'', 2)]\<rparr> :: string world))"
    by (simp add: Subscriber_init_def)
  have a: "''topic1'' \<notin> fst ` set [(''other'', 2::nat)]" by simp
  from unsubscribe_idempotent
         [of "Subscriber_init 1 ''topic1'' ''Foo'' (PyObj 5 True True)"
             "idle_world\<lparr>registry := [(''other'', 2)]\<rparr> :: string world"] h
  have b: "unsubscribe (Subscriber_init 1 ''topic1'' ''Foo'' (PyObj 5 True True))
        (idle_world\<lparr>registry := [(''other'', 2)]\<rparr> :: string world)
     = (Inr (), Subscriber_init 1 ''topic1'' ''Foo'' (PyObj 5 True True),
        idle_world\<lparr>registry := [(''other'', 2)]\<rparr>)"
    by blast
  from unsubscribe_idempotent
         [of "Subscriber_init 1 ''topic1'' ''Foo'' (PyObj 5 True True)"
             "idle_world\<lparr>registry := [(''topic1'', 1), (''other'', 2)]\<rparr> :: string world"]
  have c: "fst (unsubscribe (Subscriber_init 1 ''topic1'' ''Foo'' (PyObj 5 True True))
        (snd (snd (unsubscribe (Subscriber_init 1 ''topic1'' ''Foo'' (PyObj 5 True True))
           (idle_world\<lparr>registry := [(''topic1'', 1), (''other'', 2)]\<rparr> :: string world)))))
     = Inr ()"
    by blast
  from a b c show ?thesis by blast
qed

section \<open>The synchronous bridge: reply and disposal\<close>

text \<open>
  The methods of the bridge as they are written, on any object that has them. Without the
  attribute \<^verbatim>\<open>_msgType\<close> a delivery leaves a blocked caller blocked.
\<close>

lemma reply_leaves_blocked:
  assumes "srv_msgType s = None" and "ROSService_rosCB_wake s u e w = None"
  shows "ROSService_rosCB_wake (fst (snd (Service_callback s mt reply mid w))) u e
           (snd (snd (Service_callback s mt reply mid w))) = None"
  using assms by (simp add: Service_callback_unbound)

text \<open>
  The finalizer looks for events among the stored replies. As long as
  \<^verbatim>\<open>_pending\<close> holds messages only, it sets no event, and a blocked caller
  stays blocked.
\<close>

lemma disposal_leaves_blocked:
  assumes "\<forall>v \<in> set (map snd (srv_pending s)). isinstance_Message v"
    and "ROSService_rosCB_wake s u e w = None"
  shows "ROSService_rosCB_wake (fst (snd (ROSService_del s w))) u e
           (snd (snd (ROSService_del s w))) = None"
proof -
  have "events (snd (snd (ROSService_del s w))) = events w"
    using assms(1) by (rule ROSService_del_messages)
  with assms(2) show ?thesis
    by (simp add: ROSService_rosCB_wake_def split: if_splits)
qed



end
